theory Spec2Isabelle
  imports Complex_Main "HOL-Library.Word"
begin

section \<open>The model contract of emo\_classifier (model.py)\<close>

text \<open>
  The module defines the abstract class \<open>Model\<close>: two concrete operations, \<open>load\<close> and
  \<open>save\<close>, the helper \<open>_initialize_artifact_dir\<close>, and abstract operations that every
  variant overrides. The embedding passes the world explicitly: what is found at
  \<open>ARTIFACT_DIR\<close>, the lines printed so far, and whether the process has imported the
  package of the artifacts. Exceptions are values: every operation
  returns its result, or the exception raised, together with the world it leaves behind, so
  that what a failed call has already done stays visible.
\<close>

subsection \<open>Exceptions\<close>

text \<open>
  The built-in exceptions that the calls of the module can raise, and \<open>Raised name\<close> for any
  other exception that the code of a variant raises (named by its class).
\<close>

datatype error =
    FileNotFoundError
  | ModuleNotFoundError
  | NotADirectoryError
  | IsADirectoryError
  | OSError
  | NotImplementedError
  | ValueError
  | Raised string

subsection \<open>The artifact directory\<close>

type_synonym bytes = "8 word list"

text \<open>
  An entry of a directory is a regular file with its contents, a directory with its own
  entries, or a symbolic link with what it points to (\<open>None\<close> when it dangles). A directory
  is the list of its named entries, in the order in which \<open>iterdir\<close> yields them.
\<close>

datatype node =
    File bytes
  | Dir "(string \<times> node) list"
  | Symlink "node option"

type_synonym dir = "(string \<times> node) list"

text \<open>
  What is found at the path \<open>ARTIFACT_DIR\<close> itself: nothing, something that is not a
  directory, or a directory. The path is taken not to be a symbolic link, and its parent
  to exist.
\<close>

datatype dir_state = Absent | NotADirectory | Directory dir

text \<open>
  \<open>artifact_dir_path\<close> is the absolute path of \<open>ARTIFACT_DIR\<close> as text; the constant is
  imported from the package and never assigned by this module. \<open>imported\<close> says whether
  the package \<open>emo_classifier.artifact\<close>, whose directory is \<open>ARTIFACT_DIR\<close>, is among the
  modules that the process has imported.
\<close>

record world =
  artifact_dir :: dir_state
  artifact_dir_path :: string
  stdout :: "string list"
  imported :: bool

text \<open>Following symbolic links, as \<open>is_dir\<close> and \<open>open\<close> do.\<close>

fun resolve :: "node \<Rightarrow> node option" where
  "resolve (File b) = Some (File b)"
| "resolve (Dir es) = Some (Dir es)"
| "resolve (Symlink None) = None"
| "resolve (Symlink (Some n)) = resolve n"

definition entry_at :: "dir \<Rightarrow> string \<Rightarrow> node option" where
  "entry_at d name = (case map_of d name of None \<Rightarrow> None | Some n \<Rightarrow> resolve n)"

text \<open>\<open>Path.is_dir\<close>: false for a missing path and for a broken link, never an error.\<close>

definition is_dir :: "dir \<Rightarrow> string \<Rightarrow> bool" where
  "is_dir d name = (case entry_at d name of Some (Dir es) \<Rightarrow> True | _ \<Rightarrow> False)"

definition remove_entry :: "string \<Rightarrow> dir \<Rightarrow> dir" where
  "remove_entry name d = filter (\<lambda>e. fst e \<noteq> name) d"

text \<open>
  \<open>shutil.rmtree\<close> removes a directory with everything below it, and refuses a symbolic
  link, also one that points to a directory.
\<close>

definition rmtree :: "string \<Rightarrow> dir \<Rightarrow> (error + unit) \<times> dir" where
  "rmtree name d =
     (case map_of d name of
        None \<Rightarrow> (Inl FileNotFoundError, d)
      | Some (File b) \<Rightarrow> (Inl NotADirectoryError, d)
      | Some (Dir es) \<Rightarrow> (Inr (), remove_entry name d)
      | Some (Symlink t) \<Rightarrow> (Inl OSError, d))"

text \<open>\<open>Path.unlink\<close> removes a file or a symbolic link (the link, not its target).\<close>

definition unlink :: "string \<Rightarrow> dir \<Rightarrow> (error + unit) \<times> dir" where
  "unlink name d =
     (case map_of d name of
        None \<Rightarrow> (Inl FileNotFoundError, d)
      | Some (File b) \<Rightarrow> (Inr (), remove_entry name d)
      | Some (Dir es) \<Rightarrow> (Inl IsADirectoryError, d)
      | Some (Symlink t) \<Rightarrow> (Inr (), remove_entry name d))"

text \<open>
  \<open>Path.touch\<close> creates an empty file when nothing has the name, and otherwise only
  updates a time stamp, which the model does not keep.
\<close>

definition touch :: "string \<Rightarrow> dir \<Rightarrow> dir" where
  "touch name d = (case map_of d name of None \<Rightarrow> d @ [(name, File [])] | Some n \<Rightarrow> d)"

subsection \<open>Opening a resource of the artifact package\<close>

text \<open>
  \<open>importlib.resources.open_binary\<close> is given the package \<open>emo_classifier.artifact\<close> and a
  file name. In CPython 3.11 it first imports the package, unless the process has done so
  already, then checks the name, then opens the file of that name in the directory of the
  package. The stream it yields is modelled by the bytes it reads.

  The import of a directory as a package runs its init file. For the marker that \<open>save\<close>
  writes, an empty \<open>__init__.py\<close>, that is nothing, except that the interpreter caches the
  bytecode of the marker in \<open>__pycache__\<close> beside it; a directory with no init file is
  imported as a namespace package, and nothing is written. What the interpreter does
  beyond that is code that the model does not interpret, and is a parameter:
  \<^item> \<open>dont_write_bytecode\<close> is the flag of that name;
  \<^item> \<open>cache_bytecode\<close> gives what \<open>__pycache__\<close> holds once the bytecode of the empty marker
    is cached in it, from what it held before;
  \<^item> \<open>unmodelled\<close> is the whole call where the model does not follow it: when the
    directory has init code (a marker that is not empty, or another \<open>__init__\<close> file, such
    as an extension module or bytecode without source), when the cache would be written
    through a symbolic link, and when the package was imported before and its directory
    is no longer there.
\<close>

record interpreter =
  dont_write_bytecode :: bool
  cache_bytecode :: "dir \<Rightarrow> dir"
  unmodelled :: "string \<Rightarrow> world \<Rightarrow> (error + bytes) \<times> world"

text \<open>
  A name that is one ordinary path component, and a name that the import machinery may
  take for an init file of the package.
\<close>

definition plain_name :: "string \<Rightarrow> bool" where
  "plain_name name \<longleftrightarrow>
     name \<noteq> [] \<and> name \<noteq> ''.'' \<and> name \<noteq> ''..'' \<and> CHR ''/'' \<notin> set name \<and> CHR 0x00 \<notin> set name"

definition init_name :: "string \<Rightarrow> bool" where
  "init_name name \<longleftrightarrow> take 9 name = ''__init__.''"

text \<open>
  The check of the name and the opening, in a directory that exists: a name with a
  separator is refused by \<open>open_binary\<close> and one with a null character by \<open>open\<close>, both
  with \<open>ValueError\<close>; the empty name, \<open>.\<close> and \<open>..\<close> denote directories.
\<close>

definition open_resource :: "dir \<Rightarrow> string \<Rightarrow> error + bytes" where
  "open_resource d name =
     (if CHR ''/'' \<in> set name \<or> CHR 0x00 \<in> set name then Inl ValueError
      else if name = [] \<or> name = ''.'' \<or> name = ''..'' then Inl IsADirectoryError
      else
        (case entry_at d name of
           Some (File b) \<Rightarrow> Inr b
         | Some (Dir es) \<Rightarrow> Inl IsADirectoryError
         | _ \<Rightarrow> Inl FileNotFoundError))"

text \<open>
  Caching bytecode: \<open>__pycache__\<close> is created when nothing has the name, written into when
  it is a directory, and left alone otherwise (the interpreter gives up silently).
\<close>

definition cache_written :: "(dir \<Rightarrow> dir) \<Rightarrow> dir \<Rightarrow> dir" where
  "cache_written f d =
     (case map_of d ''__pycache__'' of
        None \<Rightarrow> d @ [(''__pycache__'', Dir (f []))]
      | Some (File b) \<Rightarrow> d
      | Some (Dir es) \<Rightarrow>
          map (\<lambda>e. if fst e = ''__pycache__'' then (''__pycache__'', Dir (f es)) else e) d
      | Some (Symlink t) \<Rightarrow> d)"

text \<open>
  The directories whose import the model follows: the only init file, if there is one,
  is an empty \<open>__init__.py\<close>, and its bytecode is not cached through a symbolic link.
\<close>

definition plain_package :: "interpreter \<Rightarrow> dir \<Rightarrow> bool" where
  "plain_package py d \<longleftrightarrow>
     (\<forall>name\<in>set (map fst d). init_name name \<longrightarrow> name = ''__init__.py'') \<and>
     (case entry_at d ''__init__.py'' of
        Some (File src) \<Rightarrow>
          src = [] \<and>
          (dont_write_bytecode py \<or>
           (case map_of d ''__pycache__'' of Some (Symlink t) \<Rightarrow> False | _ \<Rightarrow> True))
      | _ \<Rightarrow> True)"

text \<open>What the import of such a directory leaves in it.\<close>

definition import_cache :: "interpreter \<Rightarrow> dir \<Rightarrow> dir" where
  "import_cache py d =
     (if entry_at d ''__init__.py'' = Some (File []) \<and> \<not> dont_write_bytecode py
      then cache_written (cache_bytecode py) d else d)"

definition open_binary :: "interpreter \<Rightarrow> world \<Rightarrow> string \<Rightarrow> (error + bytes) \<times> world" where
  "open_binary py w name =
     (case artifact_dir w of
        Absent \<Rightarrow>
          (if imported w then unmodelled py name w else (Inl ModuleNotFoundError, w))
      | NotADirectory \<Rightarrow>
          (if imported w then unmodelled py name w else (Inl ModuleNotFoundError, w))
      | Directory d \<Rightarrow>
          (if imported w then (open_resource d name, w)
           else if plain_package py d then
             (open_resource (import_cache py d) name,
              w\<lparr>artifact_dir := Directory (import_cache py d), imported := True\<rparr>)
           else unmodelled py name w))"

subsection \<open>The class\<close>

text \<open>
  A class of the hierarchy is the record of its class attribute \<open>artifact_file_name\<close> and
  of the operations a variant overrides; \<open>'m\<close> is the type of its instances and \<open>'x\<close> the
  type of a batch. \<open>load_artifact_file\<close> is a class method on a stream.
  \<open>save_artifact_file\<close> is given the path \<open>ARTIFACT_DIR / artifact_file_name\<close>,
  represented by the file name below \<open>ARTIFACT_DIR\<close>, and acts on what is found at
  \<open>ARTIFACT_DIR\<close>. \<open>type_name\<close> gives \<open>type(model).__name__\<close> of an instance.
  Instances are taken not to shadow \<open>artifact_file_name\<close> with an attribute of their own,
  so that \<open>self.artifact_file_name\<close> in \<open>save\<close> is the class attribute that \<open>load\<close> reads.
\<close>

record ('m, 'x) model_class =
  artifact_file_name :: string
  load_artifact_file :: "bytes \<Rightarrow> error + 'm"
  save_artifact_file :: "'m \<Rightarrow> string \<Rightarrow> dir_state \<Rightarrow> (error + unit) \<times> dir_state"
  predict_proba :: "'m \<Rightarrow> 'x \<Rightarrow> error + real list list"
  type_name :: "'m \<Rightarrow> string"

text \<open>
  The base class itself: the default file name, and abstract operations whose bodies
  raise \<open>NotImplementedError\<close>. A variant is this record with the operations replaced.
\<close>

definition Model :: "('m, 'x) model_class" where
  "Model =
     \<lparr> artifact_file_name = ''model.model'',
       load_artifact_file = (\<lambda>fp. Inl NotImplementedError),
       save_artifact_file = (\<lambda>self path s. (Inl NotImplementedError, s)),
       predict_proba = (\<lambda>self X. Inl NotImplementedError),
       type_name = (\<lambda>self. ''Model'') \<rparr>"

subsection \<open>load\<close>

text \<open>
  The class method takes the interpreter it runs in. Whatever \<open>open_binary\<close> or
  \<open>load_artifact_file\<close> raises leaves \<open>load\<close> as it is: there is no handler.
\<close>

definition load ::
  "interpreter \<Rightarrow> ('m, 'x) model_class \<Rightarrow> world \<Rightarrow> (error + 'm) \<times> world" where
  "load py cls w =
     (case open_binary py w (artifact_file_name cls) of
        (Inl e, w1) \<Rightarrow> (Inl e, w1)
      | (Inr fp, w1) \<Rightarrow>
          (case load_artifact_file cls fp of
             Inl e \<Rightarrow> (Inl e, w1)
           | Inr model \<Rightarrow>
               (Inr model,
                w1\<lparr>stdout := stdout w1 @ [''LOADED: '' @ type_name cls model @ '' instance'']\<rparr>)))"

subsection \<open>\_initialize\_artifact\_dir\<close>

text \<open>
  The loop over \<open>ARTIFACT_DIR.iterdir()\<close>: the names are listed once, then each entry is
  removed in turn, a directory by \<open>rmtree\<close> and anything else by \<open>unlink\<close>. The first
  exception ends the loop and leaves the entries not yet visited in place.
\<close>

fun clear_entries :: "string list \<Rightarrow> dir \<Rightarrow> (error + unit) \<times> dir" where
  "clear_entries [] d = (Inr (), d)"
| "clear_entries (file # files) d =
     (case (if is_dir d file then rmtree file d else unlink file d) of
        (Inl e, d') \<Rightarrow> (Inl e, d')
      | (Inr u, d') \<Rightarrow> clear_entries files d')"

text \<open>
  The three cases are those of \<open>ARTIFACT_DIR.exists()\<close>: a missing path is created by
  \<open>mkdir\<close> as an empty directory; on a path that exists and is no directory \<open>iterdir\<close>
  raises; a directory is emptied by the loop. The marker file is touched last, and only
  when nothing was raised before.
\<close>

definition initialize_artifact_dir :: "world \<Rightarrow> (error + unit) \<times> world" where
  "initialize_artifact_dir w =
     (case artifact_dir w of
        Absent \<Rightarrow> (Inr (), w\<lparr>artifact_dir := Directory (touch ''__init__.py'' [])\<rparr>)
      | NotADirectory \<Rightarrow> (Inl NotADirectoryError, w)
      | Directory d \<Rightarrow>
          (case clear_entries (map fst d) d of
             (Inl e, d') \<Rightarrow> (Inl e, w\<lparr>artifact_dir := Directory d'\<rparr>)
           | (Inr u, d') \<Rightarrow>
               (Inr (), w\<lparr>artifact_dir := Directory (touch ''__init__.py'' d')\<rparr>)))"

subsection \<open>save\<close>

definition save :: "('m, 'x) model_class \<Rightarrow> 'm \<Rightarrow> world \<Rightarrow> (error + unit) \<times> world" where
  "save cls self w =
     (case initialize_artifact_dir w of
        (Inl e, w1) \<Rightarrow> (Inl e, w1)
      | (Inr u, w1) \<Rightarrow>
          (let file_path = artifact_file_name cls
           in case save_artifact_file cls self file_path (artifact_dir w1) of
                (Inl e, s) \<Rightarrow> (Inl e, w1\<lparr>artifact_dir := s\<rparr>)
              | (Inr u', s) \<Rightarrow>
                  (Inr (),
                   w1\<lparr>artifact_dir := s,
                      stdout := stdout w1 @
                        [''SAVED: '' @ artifact_dir_path w1 @ ''/'' @ file_path]\<rparr>)))"

subsection \<open>What the contract asks of a variant\<close>



text \<open>
  An entry that the loop of \<open>_initialize_artifact_dir\<close> can remove: anything but a symbolic
  link to a directory, which \<open>is_dir\<close> sends to \<open>rmtree\<close> and \<open>rmtree\<close> refuses.
\<close>

definition removable :: "node \<Rightarrow> bool" where
  "removable n =
     (case n of
        Symlink t \<Rightarrow> (case resolve n of Some (Dir es) \<Rightarrow> False | _ \<Rightarrow> True)
      | _ \<Rightarrow> True)"

subsection \<open>Thresholding\<close>

text \<open>
  Modelled from the spec: the body of \<open>predict\<close>, which model.py only declares (every
  variant implements it in its own module) and the \<open>Thresholds\<close> type of
  \<open>emo_classifier.metrics\<close>. The spec gives thresholds as a mapping from each label to a
  cut-off, and has \<open>predict\<close> assert a label by comparing the probability estimated for
  it, in the column of that label, against its threshold. The spec does not say whether
  a probability equal to the threshold asserts the label, so both readings are kept,
  chosen by \<open>inclusive\<close>.
\<close>

definition asserted :: "bool \<Rightarrow> real \<Rightarrow> real \<Rightarrow> bool" where
  "asserted inclusive p t = (if inclusive then t \<le> p else t < p)"

definition predict_labels ::
  "bool \<Rightarrow> string list \<Rightarrow> (string \<Rightarrow> real) \<Rightarrow> real list \<Rightarrow> string list" where
  "predict_labels inclusive emotions thresholds row =
     map fst (filter (\<lambda>lp. asserted inclusive (snd lp) (thresholds (fst lp))) (zip emotions row))"

subsection \<open>Variants, an interpreter and worlds to run the operations on\<close>

text \<open>
  \<open>Pickled name\<close> keeps its learned state as the bytes it writes to its artifact, under
  the file name \<open>name\<close>; it predicts one row per input, one column per byte of its state,
  and does not read an empty stream back.
  \<open>dump\<close> writes the file anew and does not write through a directory or a link.
\<close>

definition dump :: "bytes \<Rightarrow> string \<Rightarrow> dir_state \<Rightarrow> (error + unit) \<times> dir_state" where
  "dump self path s =
     (case s of
        Directory d \<Rightarrow>
          (case map_of d path of
             Some (Dir es) \<Rightarrow> (Inl IsADirectoryError, s)
           | Some (Symlink t) \<Rightarrow> (Inl OSError, s)
           | _ \<Rightarrow> (Inr (), Directory (remove_entry path d @ [(path, File self)])))
      | _ \<Rightarrow> (Inl FileNotFoundError, s))"

definition Pickled :: "string \<Rightarrow> (bytes, nat list) model_class" where
  "Pickled name =
     Model\<lparr> artifact_file_name := name,
            load_artifact_file := (\<lambda>fp. if fp = [] then Inl (Raised ''EOFError'') else Inr fp),
            save_artifact_file := dump,
            predict_proba := (\<lambda>self X. Inr (map (\<lambda>x. map (\<lambda>b. if b = 0 then 0 else 1) self) X)),
            type_name := (\<lambda>self. ''Pickled'') \<rparr>"

text \<open>\<open>Truncating\<close> fails while it saves, after it has created an empty artifact file.\<close>

definition Truncating :: "(bytes, nat list) model_class" where
  "Truncating =
     (Pickled ''model.model'')
       \<lparr> save_artifact_file := (\<lambda>self path s. (Inl (Raised ''PicklingError''), snd (dump [] path s))) \<rparr>"

text \<open>
  \<open>Unfinished\<close> overrides every operation but \<open>load_artifact_file\<close>, which it leaves as the
  base class has it.
\<close>

definition Unfinished :: "(bytes, nat list) model_class" where
  "Unfinished =
     (Pickled ''model.model'')
       \<lparr> load_artifact_file := load_artifact_file (Model :: (bytes, nat list) model_class) \<rparr>"

text \<open>
  \<open>cpython311\<close> is CPython 3.11 with the caching of bytecode on, as far as the worlds below
  need it. The cache file is abbreviated to its magic number. The only init code in those
  worlds is a marker with the source \<open>1/0\<close> (the bytes 49, 47, 48): its import caches the
  bytecode and then raises \<open>ZeroDivisionError\<close>. Any other init code, which does not occur
  below, stands for a package that fails to import.
\<close>

definition pyc :: "dir \<Rightarrow> dir" where
  "pyc es =
     remove_entry ''__init__.cpython-311.pyc'' es @
       [(''__init__.cpython-311.pyc'', File [167, 13, 13, 10])]"

definition cpython311 :: interpreter where
  "cpython311 =
     \<lparr> dont_write_bytecode = False,
       cache_bytecode = pyc,
       unmodelled =
         (\<lambda>name w.
            case artifact_dir w of
              Directory d \<Rightarrow>
                (if entry_at d ''__init__.py'' = Some (File [49, 47, 48])
                 then (Inl (Raised ''ZeroDivisionError''),
                       w\<lparr>artifact_dir := Directory (cache_written pyc d)\<rparr>)
                 else (Inl (Raised ''ImportError''), w))
            | _ \<Rightarrow> (Inl FileNotFoundError, w)) \<rparr>"

definition fresh_world :: world where
  "fresh_world =
     \<lparr> artifact_dir = Absent,
       artifact_dir_path = ''/srv/emo_classifier/artifact'',
       stdout = [],
       imported = False \<rparr>"

definition used_world :: world where
  "used_world =
     \<lparr> artifact_dir = Directory
         [(''notes.txt'', File [104, 105]),
          (''old'', Dir [(''model.model'', File [7])]),
          (''latest'', Symlink (Some (File [9]))),
          (''model.model'', File [9])],
       artifact_dir_path = ''/srv/emo_classifier/artifact'',
       stdout = [],
       imported = False \<rparr>"

text \<open>The world that \<open>used_world\<close> becomes when the instance \<open>[1, 0, 1]\<close> has saved itself.\<close>

definition saved_world :: world where
  "saved_world =
     \<lparr> artifact_dir = Directory [(''__init__.py'', File []), (''model.model'', File [1, 0, 1])],
       artifact_dir_path = ''/srv/emo_classifier/artifact'',
       stdout = [''SAVED: /srv/emo_classifier/artifact/model.model''],
       imported = False \<rparr>"

definition truncated_world :: world where
  "truncated_world =
     \<lparr> artifact_dir = Directory [(''__init__.py'', File []), (''model.model'', File [])],
       artifact_dir_path = ''/srv/emo_classifier/artifact'',
       stdout = [],
       imported = False \<rparr>"


definition half :: "string \<Rightarrow> real" where
  "half label = 1 / 2"

section \<open>Properties\<close>

subsection \<open>Clearing the directory\<close>

lemma step_success:
  "(if is_dir d f then rmtree f d else unlink f d) = (Inr u, d') \<Longrightarrow> d' = remove_entry f d"
  by (auto simp: rmtree_def unlink_def split: if_splits option.splits node.splits)

lemma clear_entries_success:
  "clear_entries fs d = (Inr u, d') \<Longrightarrow> d' = filter (\<lambda>e. fst e \<notin> set fs) d"
proof (induction fs arbitrary: d)
  case Nil
  then show ?case by simp
next
  case (Cons f fs)
  obtain r d1 where st: "(if is_dir d f then rmtree f d else unlink f d) = (r, d1)"
    by (cases "if is_dir d f then rmtree f d else unlink f d") auto
  with Cons.prems obtain u1 where r: "r = Inr u1"
    by (cases r) auto
  from st r have d1: "d1 = remove_entry f d" by (auto dest: step_success)
  from Cons.prems st r have "clear_entries fs d1 = (Inr u, d')" by simp
  then have "d' = filter (\<lambda>e. fst e \<notin> set fs) d1" by (rule Cons.IH)
  with d1 show ?case by (simp add: remove_entry_def conj_commute)
qed

lemma clear_all_success:
  "clear_entries (map fst d) d = (Inr u, d') \<Longrightarrow> d' = []"
  by (drule clear_entries_success) (simp add: filter_empty_conv)

text \<open>
  Whenever \<open>_initialize_artifact_dir\<close> returns, the directory exists and holds the empty
  marker file and nothing else; nothing but the directory has changed.
\<close>

lemma initialize_success:
  assumes "initialize_artifact_dir w = (Inr u, w1)"
  shows "w1 = w\<lparr>artifact_dir := Directory [(''__init__.py'', File [])]\<rparr>"
  using assms
  by (auto simp: initialize_artifact_dir_def touch_def
      split: dir_state.splits prod.splits sum.splits dest!: clear_all_success)

lemma map_of_remove_entry: "map_of (remove_entry k d) = (map_of d)(k := None)"
  by (induction d) (auto simp: remove_entry_def fun_eq_iff)

lemma step_ok:
  assumes "map_of d f = Some n" and "removable n"
  shows "(if is_dir d f then rmtree f d else unlink f d) = (Inr (), remove_entry f d)"
  using assms
  by (cases n) (auto simp: is_dir_def entry_at_def rmtree_def unlink_def removable_def
      split: option.splits node.splits)

lemma clear_entries_ok:
  "distinct fs \<Longrightarrow> (\<forall>f\<in>set fs. \<exists>n. map_of d f = Some n \<and> removable n) \<Longrightarrow>
   fst (clear_entries fs d) = Inr ()"
proof (induction fs arbitrary: d)
  case Nil
  then show ?case by simp
next
  case (Cons f fs)
  then obtain n where n: "map_of d f = Some n" "removable n" by auto
  have rest: "\<forall>g\<in>set fs. \<exists>n. map_of (remove_entry f d) g = Some n \<and> removable n"
    using Cons.prems by (auto simp: map_of_remove_entry)
  from Cons.prems have "distinct fs" by simp
  then have "fst (clear_entries fs (remove_entry f d)) = Inr ()" using rest by (rule Cons.IH)
  with step_ok [OF n] show ?case by simp
qed

text \<open>
  It does return when the directory is missing, and when it is a directory (of distinctly
  named entries) with no symbolic link to a directory in it.
\<close>

lemma initialize_artifact_dir_ok:
  assumes "artifact_dir w = Absent \<or>
           (\<exists>d. artifact_dir w = Directory d \<and> distinct (map fst d) \<and>
                (\<forall>e\<in>set d. removable (snd e)))"
  shows "initialize_artifact_dir w =
           (Inr (), w\<lparr>artifact_dir := Directory [(''__init__.py'', File [])]\<rparr>)"
proof -
  have "fst (initialize_artifact_dir w) = Inr ()"
    using assms
  proof
    assume "artifact_dir w = Absent"
    then show ?thesis by (simp add: initialize_artifact_dir_def)
  next
    assume "\<exists>d. artifact_dir w = Directory d \<and> distinct (map fst d) \<and>
                (\<forall>e\<in>set d. removable (snd e))"
    then obtain d where d: "artifact_dir w = Directory d" "distinct (map fst d)"
      "\<forall>e\<in>set d. removable (snd e)" by blast
    have "\<forall>f\<in>set (map fst d). \<exists>n. map_of d f = Some n \<and> removable n"
    proof
      fix f assume "f \<in> set (map fst d)"
      then obtain n where "map_of d f = Some n"
        by (metis map_of_eq_None_iff not_Some_eq set_map)
      moreover from this have "(f, n) \<in> set d" by (rule map_of_SomeD)
      with d(3) have "removable n" by force
      ultimately show "\<exists>n. map_of d f = Some n \<and> removable n" by blast
    qed
    with d(2) have "fst (clear_entries (map fst d) d) = Inr ()" by (rule clear_entries_ok)
    with d(1) show ?thesis
      by (cases "clear_entries (map fst d) d") (simp add: initialize_artifact_dir_def)
  qed
  then obtain w1 where "initialize_artifact_dir w = (Inr (), w1)"
    by (cases "initialize_artifact_dir w") auto
  then show ?thesis by (auto dest: initialize_success)
qed

text \<open>A symbolic link to a directory stops the loop, with the entries before it removed.\<close>

lemma initialize_artifact_dir_symlink:
  "initialize_artifact_dir
     (w\<lparr>artifact_dir := Directory [(''a'', File []), (''l'', Symlink (Some (Dir []))), (''z'', File [])]\<rparr>) =
   (Inl OSError,
    w\<lparr>artifact_dir := Directory [(''l'', Symlink (Some (Dir []))), (''z'', File [])]\<rparr>)"
  by (simp add: initialize_artifact_dir_def is_dir_def entry_at_def rmtree_def unlink_def
      remove_entry_def)

subsection \<open>A successful save\<close>


subsection \<open>The variants\<close>

lemmas run_defs =
  save_def initialize_artifact_dir_def is_dir_def entry_at_def rmtree_def unlink_def
  remove_entry_def touch_def Pickled_def dump_def Model_def
  Truncating_def fresh_world_def used_world_def truncated_world_def saved_world_def Let_def



lemma Pickled_fields:
  "artifact_file_name (Pickled name) = name"
  "save_artifact_file (Pickled name) = dump"
  "load_artifact_file (Pickled name) fp = (if fp = [] then Inl (Raised ''EOFError'') else Inr fp)"
  by (simp_all add: Pickled_def)




subsection \<open>Asserted labels\<close>

lemma predict_labels_member:
  "l \<in> set (predict_labels inc emotions thr row) \<longleftrightarrow>
     (\<exists>p. (l, p) \<in> set (zip emotions row) \<and> asserted inc p (thr l))"
  by (force simp: predict_labels_def)

lemma asserted_antitone: "t \<le> t' \<Longrightarrow> asserted inc p t' \<Longrightarrow> asserted inc p t"
  by (auto simp: asserted_def split: if_splits)

subsection \<open>What a successful save leaves\<close>




subsection \<open>The import and the cache\<close>

lemma map_of_map_entry:
  "map_of (map (\<lambda>e. if fst e = k then (k, v) else e) d) =
     (if map_of d k = None then map_of d else (map_of d)(k \<mapsto> v))"
  by (induction d) (auto simp: fun_eq_iff)

lemma map_of_cache_written:
  "map_of (cache_written f d) =
     (case map_of d ''__pycache__'' of
        None \<Rightarrow> (map_of d)(''__pycache__'' \<mapsto> Dir (f []))
      | Some (File b) \<Rightarrow> map_of d
      | Some (Dir es) \<Rightarrow> (map_of d)(''__pycache__'' \<mapsto> Dir (f es))
      | Some (Symlink t) \<Rightarrow> map_of d)"
  by (auto simp: cache_written_def map_of_map_entry fun_eq_iff map_add_def
      split: option.splits node.splits)

lemma map_of_import_cache:
  "name \<noteq> ''__pycache__'' \<Longrightarrow> map_of (import_cache py d) name = map_of d name"
  by (simp add: import_cache_def map_of_cache_written split: option.splits node.splits)

lemma entry_at_import_cache:
  "name \<noteq> ''__pycache__'' \<Longrightarrow> entry_at (import_cache py d) name = entry_at d name"
  by (simp add: entry_at_def map_of_import_cache)

lemma import_cache_file:
  assumes "plain_package py d"
  shows "entry_at (import_cache py d) name = Some (File b) \<longleftrightarrow> entry_at d name = Some (File b)"
proof (cases "name = ''__pycache__''")
  case False
  then show ?thesis by (simp add: entry_at_import_cache)
next
  case True
  show ?thesis
  proof (cases "entry_at d ''__init__.py'' = Some (File []) \<and> \<not> dont_write_bytecode py")
    case False
    then show ?thesis by (auto simp: import_cache_def)
  next
    case c: True
    with assms have "case map_of d ''__pycache__'' of Some (Symlink t) \<Rightarrow> False | _ \<Rightarrow> True"
      by (simp add: plain_package_def)
    with c True show ?thesis
      by (auto simp: import_cache_def entry_at_def map_of_cache_written
          split: option.splits node.splits)
  qed
qed

lemma import_cache_dir:
  assumes "plain_package py d" and "entry_at d name = Some (Dir es)"
  shows "\<exists>es'. entry_at (import_cache py d) name = Some (Dir es')"
proof (cases "name = ''__pycache__''")
  case False
  with assms(2) show ?thesis by (simp add: entry_at_import_cache)
next
  case True
  show ?thesis
  proof (cases "entry_at d ''__init__.py'' = Some (File []) \<and> \<not> dont_write_bytecode py")
    case False
    with assms(2) show ?thesis by (auto simp: import_cache_def)
  next
    case c: True
    with assms have "case map_of d ''__pycache__'' of Some (Symlink t) \<Rightarrow> False | _ \<Rightarrow> True"
      by (simp add: plain_package_def)
    with c True assms(2) show ?thesis
      by (auto simp: import_cache_def entry_at_def map_of_cache_written
          split: option.splits node.splits)
  qed
qed

lemma open_resource_plain:
  "plain_name name \<Longrightarrow>
   open_resource d name =
     (case entry_at d name of
        Some (File b) \<Rightarrow> Inr b
      | Some (Dir es) \<Rightarrow> Inl IsADirectoryError
      | _ \<Rightarrow> Inl FileNotFoundError)"
  by (simp add: open_resource_def plain_name_def)

text \<open>
  On a directory whose import the model follows, \<open>open_binary\<close> opens the resource in the
  directory as the import leaves it: the package counts as imported, and nothing but
  \<open>__pycache__\<close> has changed.
\<close>

lemma open_binary_plain:
  assumes "artifact_dir w = Directory d" and "imported w \<or> plain_package py d"
  shows "\<exists>d1. open_binary py w name = (open_resource d1 name, w\<lparr>artifact_dir := Directory d1, imported := True\<rparr>)
           \<and> (\<forall>n. n \<noteq> ''__pycache__'' \<longrightarrow> map_of d1 n = map_of d n)
           \<and> (\<forall>b. entry_at d1 name = Some (File b) \<longleftrightarrow> entry_at d name = Some (File b))
           \<and> (\<forall>es. entry_at d name = Some (Dir es) \<longrightarrow> (\<exists>es'. entry_at d1 name = Some (Dir es')))"
proof (cases "imported w")
  case True
  with assms(1) have "open_binary py w name = (open_resource d name, w\<lparr>artifact_dir := Directory d, imported := True\<rparr>)"
    by (simp add: open_binary_def)
  then show ?thesis by blast
next
  case False
  with assms(2) have p: "plain_package py d" by simp
  with False assms(1) have "open_binary py w name =
      (open_resource (import_cache py d) name,
       w\<lparr>artifact_dir := Directory (import_cache py d), imported := True\<rparr>)"
    by (simp add: open_binary_def)
  moreover have "\<forall>n. n \<noteq> ''__pycache__'' \<longrightarrow> map_of (import_cache py d) n = map_of d n"
    by (simp add: map_of_import_cache)
  moreover have "\<forall>b. entry_at (import_cache py d) name = Some (File b) \<longleftrightarrow> entry_at d name = Some (File b)"
    using import_cache_file [OF p] by blast
  moreover have "\<forall>es. entry_at d name = Some (Dir es) \<longrightarrow> (\<exists>es'. entry_at (import_cache py d) name = Some (Dir es'))"
    using import_cache_dir [OF p] by blast
  ultimately show ?thesis by blast
qed

subsection \<open>Running load\<close>

lemmas load_defs =
  load_def open_binary_def plain_package_def init_name_def import_cache_def cache_written_def
  open_resource_def entry_at_def cpython311_def pyc_def remove_entry_def Pickled_def Model_def
  Unfinished_def fresh_world_def used_world_def truncated_world_def saved_world_def

text \<open>
  On the base class the operations are the bodies that raise: \<open>load\<close> imports the package,
  opens the artifact and fails at the call of \<open>load_artifact_file\<close>.
\<close>

lemma load_not_implemented:
  "load cpython311 Model saved_world =
     (Inl NotImplementedError,
      saved_world
        \<lparr>artifact_dir := Directory
           [(''__init__.py'', File []), (''model.model'', File [1, 0, 1]),
            (''__pycache__'', Dir (pyc []))],
         imported := True\<rparr>)"
  by (simp add: load_defs)

section \<open>The claims\<close>









text \<open>
  C4 as stated (the confirmation is the only other effect of \<open>load\<close>) fails in the world
  that \<open>save\<close> leaves: \<open>load\<close> returns the instance, and the import of the package has left
  \<open>__pycache__\<close> in the directory.
\<close>

theorem load_returns_instance_counterexample:
  "fst (load cpython311 (Pickled ''model.model'') saved_world) = Inr [1, 0, 1] \<and>
   artifact_dir saved_world =
     Directory [(''__init__.py'', File []), (''model.model'', File [1, 0, 1])] \<and>
   artifact_dir (snd (load cpython311 (Pickled ''model.model'') saved_world)) =
     Directory
       [(''__init__.py'', File []), (''model.model'', File [1, 0, 1]),
        (''__pycache__'', Dir (pyc []))]"
  by (simp add: load_defs)

text \<open>
  C4 (amended). When the artifact of the class exists, in a directory without init code
  or in a process that has imported the package already, \<open>load\<close> hands the stream opened
  on it to \<open>load_artifact_file\<close> and returns the very instance that this built. It prints
  one line of confirmation, and in the directory nothing but \<open>__pycache__\<close> can have
  changed: the artifact, the marker and every other entry are as they were.
\<close>

theorem load_returns_instance:
  assumes "artifact_dir w = Directory d"
    and "imported w \<or> plain_package py d"
    and "plain_name (artifact_file_name cls)"
    and "entry_at d (artifact_file_name cls) = Some (File fp)"
    and "load_artifact_file cls fp = Inr model"
  shows "fst (load py cls w) = Inr model \<and>
         stdout (snd (load py cls w)) =
           stdout w @ [''LOADED: '' @ type_name cls model @ '' instance''] \<and>
         artifact_dir_path (snd (load py cls w)) = artifact_dir_path w \<and>
         (\<exists>d1. artifact_dir (snd (load py cls w)) = Directory d1 \<and>
            (\<forall>name. name \<noteq> ''__pycache__'' \<longrightarrow> map_of d1 name = map_of d name))"
proof -
  let ?n = "artifact_file_name cls"
  from open_binary_plain [OF assms(1,2), of ?n] obtain d1 where
    o: "open_binary py w ?n =
          (open_resource d1 ?n, w\<lparr>artifact_dir := Directory d1, imported := True\<rparr>)"
    and same: "\<forall>n. n \<noteq> ''__pycache__'' \<longrightarrow> map_of d1 n = map_of d n"
    and f: "\<forall>b. entry_at d1 ?n = Some (File b) \<longleftrightarrow> entry_at d ?n = Some (File b)"
    by blast
  from f assms(4) have "entry_at d1 ?n = Some (File fp)" by simp
  with assms(3) have "open_resource d1 ?n = Inr fp" by (simp add: open_resource_plain)
  with o assms(5) have "load py cls w =
      (Inr model,
       w\<lparr>artifact_dir := Directory d1, imported := True,
          stdout := stdout w @ [''LOADED: '' @ type_name cls model @ '' instance'']\<rparr>)"
    by (simp add: load_def)
  with same show ?thesis by simp
qed

theorem load_returns_instance_witness:
  "artifact_dir saved_world =
     Directory [(''__init__.py'', File []), (''model.model'', File [1, 0, 1])] \<and>
   plain_package cpython311 [(''__init__.py'', File []), (''model.model'', File [1, 0, 1])] \<and>
   plain_name (artifact_file_name (Pickled ''model.model'')) \<and>
   entry_at [(''__init__.py'', File []), (''model.model'', File [1, 0, 1])]
     (artifact_file_name (Pickled ''model.model'')) = Some (File [1, 0, 1]) \<and>
   load_artifact_file (Pickled ''model.model'') [1, 0, 1] = Inr [1, 0, 1] \<and>
   fst (load cpython311 (Pickled ''model.model'') saved_world) = Inr [1, 0, 1] \<and>
   stdout (snd (load cpython311 (Pickled ''model.model'') saved_world)) =
     [''SAVED: /srv/emo_classifier/artifact/model.model'', ''LOADED: Pickled instance'']"
proof -
  let ?d = "[(''__init__.py'', File []), (''model.model'', File [1, 0, 1])]"
  have h1: "artifact_dir saved_world = Directory ?d"
    by (simp add: saved_world_def)
  have h2: "imported saved_world \<or> plain_package cpython311 ?d"
    by (simp add: plain_package_def init_name_def entry_at_def cpython311_def)
  have h3: "plain_name (artifact_file_name (Pickled ''model.model''))"
    by (simp add: Pickled_fields plain_name_def)
  have h4: "entry_at ?d (artifact_file_name (Pickled ''model.model'')) = Some (File [1, 0, 1])"
    by (simp add: entry_at_def Pickled_fields)
  have h5: "load_artifact_file (Pickled ''model.model'') [1, 0, 1] = Inr [1, 0, 1]"
    by (simp add: Pickled_fields)
  have i: "\<not> imported saved_world" by (simp add: saved_world_def)
  have t: "type_name (Pickled ''model.model'') [1, 0, 1] = ''Pickled''"
    by (simp add: Pickled_def)
  have so: "stdout saved_world = [''SAVED: /srv/emo_classifier/artifact/model.model'']"
    by (simp add: saved_world_def)
  from load_returns_instance [OF h1 h2 h3 h4 h5] h1 h2 h3 h4 h5 i t so show ?thesis by simp
qed

text \<open>
  C5 (errors of load\_artifact\_file propagate). When \<open>load_artifact_file\<close> raises on the
  contents of the stream, \<open>load\<close> raises the same exception, unchanged: it has no handler.
\<close>

theorem load_propagates_error:
  assumes "artifact_dir w = Directory d"
    and "imported w \<or> plain_package py d"
    and "plain_name (artifact_file_name cls)"
    and "entry_at d (artifact_file_name cls) = Some (File fp)"
    and "load_artifact_file cls fp = Inl e"
  shows "fst (load py cls w) = Inl e"
proof -
  let ?n = "artifact_file_name cls"
  from open_binary_plain [OF assms(1,2), of ?n] obtain d1 where
    o: "open_binary py w ?n =
          (open_resource d1 ?n, w\<lparr>artifact_dir := Directory d1, imported := True\<rparr>)"
    and f: "\<forall>b. entry_at d1 ?n = Some (File b) \<longleftrightarrow> entry_at d ?n = Some (File b)"
    by blast
  from f assms(4) have "entry_at d1 ?n = Some (File fp)" by simp
  with assms(3) have "open_resource d1 ?n = Inr fp" by (simp add: open_resource_plain)
  with o assms(5) show ?thesis by (simp add: load_def)
qed

theorem load_propagates_error_witness:
  "artifact_dir truncated_world =
     Directory [(''__init__.py'', File []), (''model.model'', File [])] \<and>
   plain_package cpython311 [(''__init__.py'', File []), (''model.model'', File [])] \<and>
   plain_name (artifact_file_name (Pickled ''model.model'')) \<and>
   entry_at [(''__init__.py'', File []), (''model.model'', File [])]
     (artifact_file_name (Pickled ''model.model'')) = Some (File []) \<and>
   load_artifact_file (Pickled ''model.model'') [] = Inl (Raised ''EOFError'') \<and>
   fst (load cpython311 (Pickled ''model.model'') truncated_world) = Inl (Raised ''EOFError'')"
proof -
  let ?d = "[(''__init__.py'', File []), (''model.model'', File [])]"
  have h1: "artifact_dir truncated_world = Directory ?d"
    by (simp add: truncated_world_def)
  have h2: "imported truncated_world \<or> plain_package cpython311 ?d"
    by (simp add: plain_package_def init_name_def entry_at_def cpython311_def)
  have h3: "plain_name (artifact_file_name (Pickled ''model.model''))"
    by (simp add: Pickled_fields plain_name_def)
  have h4: "entry_at ?d (artifact_file_name (Pickled ''model.model'')) = Some (File [])"
    by (simp add: entry_at_def Pickled_fields)
  have h5: "load_artifact_file (Pickled ''model.model'') [] = Inl (Raised ''EOFError'')"
    by (simp add: Pickled_fields)
  have i: "\<not> imported truncated_world" by (simp add: truncated_world_def)
  from load_propagates_error [OF h1 h2 h3 h4 h5] h1 h2 h3 h4 h5 i show ?thesis by simp
qed




text \<open>
  C8 (threshold monotonicity). For a fixed row of probabilities, raising the threshold of
  one label can only take that label out of the labels that \<open>predict\<close> asserts, never
  put a label in; the other labels are asserted exactly as before.
\<close>

theorem raising_threshold_only_removes:
  assumes "thresholds l \<le> t'"
  shows "set (predict_labels inclusive emotions (thresholds(l := t')) row)
           \<subseteq> set (predict_labels inclusive emotions thresholds row) \<and>
         (\<forall>k. k \<noteq> l \<longrightarrow>
            (k \<in> set (predict_labels inclusive emotions (thresholds(l := t')) row) \<longleftrightarrow>
             k \<in> set (predict_labels inclusive emotions thresholds row)))"
proof (intro conjI subsetI allI impI)
  fix k
  assume k: "k \<in> set (predict_labels inclusive emotions (thresholds(l := t')) row)"
  then obtain p where p: "(k, p) \<in> set (zip emotions row)"
    "asserted inclusive p ((thresholds(l := t')) k)"
    unfolding predict_labels_member by blast
  have "asserted inclusive p (thresholds k)"
  proof (cases "k = l")
    case True
    with p(2) assms show ?thesis by (auto intro: asserted_antitone)
  next
    case False
    with p(2) show ?thesis by simp
  qed
  with p(1) show "k \<in> set (predict_labels inclusive emotions thresholds row)"
    unfolding predict_labels_member by blast
next
  fix k :: string
  assume "k \<noteq> l"
  then show "k \<in> set (predict_labels inclusive emotions (thresholds(l := t')) row) \<longleftrightarrow>
             k \<in> set (predict_labels inclusive emotions thresholds row)"
    unfolding predict_labels_member by simp
qed

theorem raising_threshold_only_removes_witness:
  "half ''joy'' \<le> 19 / 20 \<and>
   predict_labels False [''joy'', ''anger''] half [9 / 10, 1 / 5] = [''joy''] \<and>
   predict_labels False [''joy'', ''anger''] (half(''joy'' := 19 / 20)) [9 / 10, 1 / 5] = [] \<and>
   set (predict_labels False [''joy'', ''anger''] (half(''joy'' := 19 / 20)) [9 / 10, 1 / 5])
     \<subseteq> set (predict_labels False [''joy'', ''anger''] half [9 / 10, 1 / 5])"
proof -
  have h: "half ''joy'' \<le> 19 / 20" by (simp add: half_def)
  have e1: "predict_labels False [''joy'', ''anger''] half [9 / 10, 1 / 5] = [''joy'']"
    by (simp add: predict_labels_def asserted_def half_def)
  have e2: "predict_labels False [''joy'', ''anger''] (half(''joy'' := 19 / 20)) [9 / 10, 1 / 5] = []"
    by (simp add: predict_labels_def asserted_def half_def)
  from raising_threshold_only_removes [where thresholds = half and l = "''joy''"
      and t' = "19 / 20" and inclusive = False and emotions = "[''joy'', ''anger'']"
      and row = "[9 / 10, 1 / 5]", OF h]
    h e1 e2 show ?thesis by blast
qed




text \<open>
  C10 (save is not atomic). When the directory has been initialised and
  \<open>save_artifact_file\<close> then raises, \<open>save\<close> raises the same exception and leaves the
  directory as \<open>save_artifact_file\<close> left it, starting from the marker file alone: what was
  there before the call is not restored.
\<close>

theorem save_not_atomic:
  assumes "fst (initialize_artifact_dir w) = Inr ()"
    and "save_artifact_file cls self (artifact_file_name cls)
           (Directory [(''__init__.py'', File [])]) = (Inl e, s)"
  shows "save cls self w = (Inl e, w\<lparr>artifact_dir := s\<rparr>)"
proof -
  from assms(1) obtain w1 where i: "initialize_artifact_dir w = (Inr (), w1)"
    by (cases "initialize_artifact_dir w") auto
  then have "w1 = w\<lparr>artifact_dir := Directory [(''__init__.py'', File [])]\<rparr>"
    by (rule initialize_success)
  with i assms(2) show ?thesis by (simp add: save_def)
qed

theorem save_not_atomic_witness:
  "fst (initialize_artifact_dir used_world) = Inr () \<and>
   save_artifact_file Truncating [1] (artifact_file_name Truncating)
     (Directory [(''__init__.py'', File [])]) =
     (Inl (Raised ''PicklingError''),
      Directory [(''__init__.py'', File []), (''model.model'', File [])]) \<and>
   save Truncating [1] used_world =
     (Inl (Raised ''PicklingError''),
      used_world\<lparr>artifact_dir :=
        Directory [(''__init__.py'', File []), (''model.model'', File [])]\<rparr>)"
proof -
  have h1: "fst (initialize_artifact_dir used_world) = Inr ()"
    by (simp add: run_defs)
  have h2: "save_artifact_file Truncating [1] (artifact_file_name Truncating)
     (Directory [(''__init__.py'', File [])]) =
     (Inl (Raised ''PicklingError''),
      Directory [(''__init__.py'', File []), (''model.model'', File [])])"
    by (simp add: run_defs)
  from save_not_atomic [OF h1 h2] h1 h2 show ?thesis by simp
qed

end
